theory Spec2Isabelle
  imports Main "HOL-Library.Word"
begin

section \<open>The penguin server's HTTP handler (server/server\_handler.go)\<close>

text \<open>
  The two handlers of the source, \<open>handleClientHandler\<close> and \<open>handleWebsocket\<close>, are
  embedded as functions on an explicit state. Everything a handler does to the outside
  is recorded: what it writes to the \<open>http.ResponseWriter\<close>, and, in order, the log
  lines, the upgrade attempt, the handshake, the replies to the out-of-band request, the
  closing of the connection and the binding of the tunnel. A panic is the \<open>Inl\<close> branch
  of the result. What the outside gives back (library calls, the peer, the clock) is read
  from a record of outcomes, \<open>env\<close>.
\<close>

subsection \<open>Strings\<close>

text \<open>\<open>strings.HasPrefix\<close> and \<open>strings.HasSuffix\<close> of the Go library, on byte strings.\<close>

definition HasPrefix :: "string \<Rightarrow> string \<Rightarrow> bool" where
  "HasPrefix s p = (length p \<le> length s \<and> take (length p) s = p)"

definition HasSuffix :: "string \<Rightarrow> string \<Rightarrow> bool" where
  "HasSuffix s x = (length x \<le> length s \<and> drop (length s - length x) s = x)"

text \<open>The apostrophe and the line feed that occur in the source's literals.\<close>

definition squote :: string where
  "squote = [CHR 0x27]"

definition newline :: string where
  "newline = [CHR 0x0A]"

subsection \<open>Data\<close>

text \<open>
  \<open>http.Request\<close>: the fields the handlers read. \<open>Header\<close> is Go's
  \<open>map[string][]string\<close>; \<open>Get\<close> returns the first value stored under a key and the
  empty string when there is none.
\<close>

record request =
  Header :: "string \<rightharpoonup> string list"
  Path :: string
  Method :: string
  RemoteAddr :: string

definition Get :: "(string \<rightharpoonup> string list) \<Rightarrow> string \<Rightarrow> string" where
  "Get h k = (case h k of None \<Rightarrow> [] | Some [] \<Rightarrow> [] | Some (v # _) \<Rightarrow> v)"

text \<open>
  \<open>http.ResponseWriter\<close>, as net/http implements it: the first \<open>WriteHeader\<close> fixes
  the status, later ones are ignored, and a \<open>Write\<close> before any \<open>WriteHeader\<close> sends
  status 200 first.
\<close>

record response =
  wroteHeader :: bool
  status :: nat
  body :: string

definition new_response :: response where
  "new_response = \<lparr>wroteHeader = False, status = 0, body = []\<rparr>"

definition WriteHeader :: "nat \<Rightarrow> response \<Rightarrow> response" where
  "WriteHeader code rw = (if wroteHeader rw then rw else rw\<lparr>wroteHeader := True, status := code\<rparr>)"

definition Write :: "string \<Rightarrow> response \<Rightarrow> response" where
  "Write b rw = (let rw' = WriteHeader 200 rw in rw'\<lparr>body := body rw' @ b\<rparr>)"

text \<open>
  \<open>settings.Remote\<close> and \<open>settings.User\<close> are declared outside the handler's file. A
  remote is held by what the handler observes of it: its \<open>Reverse\<close> field and the
  results of its methods \<open>UserAddr()\<close>, \<open>CanListen()\<close> and \<open>String()\<close>. A user is
  held by its name and its method \<open>HasAccess\<close>.
\<close>

record remote =
  Reverse :: bool
  UserAddr :: string
  CanListen :: bool
  String :: string

record user =
  Name :: string
  HasAccess :: "string \<Rightarrow> bool"

record config =
  Version :: string
  Remotes :: "remote list"

text \<open>The out-of-band request \<open>ssh.Request\<close>.\<close>

record ssh_request =
  Type :: string
  Payload :: string

text \<open>
  The server's settings (\<open>s.config\<close>). The field \<open>Reverse\<close> of the source is
  \<open>cfgReverse\<close> here, the name being taken by the remote's field.
\<close>

record server_config =
  Psk :: string
  Obfs :: bool
  Resp404 :: string
  cfgReverse :: bool
  Socks5 :: bool
  KeepAlive :: int

text \<open>
  The server: its settings, the optional reverse proxy (what its \<open>ServeHTTP\<close> does to the
  response writer) and the configured users.
\<close>

record server =
  config :: server_config
  reverseProxy :: "(request \<Rightarrow> response \<Rightarrow> response) option"
  users :: "user list"

text \<open>\<open>tunnel.Config\<close>, as the handler fills it (\<open>KeepAlive\<close> is \<open>tunKeepAlive\<close>).\<close>

record tunnel_config =
  Inbound :: bool
  Outbound :: bool
  Socks :: bool
  tunKeepAlive :: int

text \<open>
  Loggers: the server's own (\<open>s\<close>) and the one forked for a session
  (\<open>s.Fork("session#%d", id)\<close>), named by the session number.
\<close>

datatype logger = ServerLogger | SessionLogger "32 word"

datatype event =
    Info logger string
  | Debug logger string
  | Upgrade
  | NewServerConn
  | TimeAfter int
  | Close
  | Reply bool string
  | TunnelNew tunnel_config
  | BindSSH
  | BindRemotes "remote list"

text \<open>
  The state the handlers change: the response writer, the trace of events, the session
  ticket store (\<open>s.sessions\<close>) and the session counter (\<open>s.sessCount\<close>, an int32).
\<close>

record state =
  w :: response
  trace :: "event list"
  sessions :: "string \<rightharpoonup> user"
  sessCount :: "32 word"

text \<open>
  What the outside answers. \<open>ToLower\<close> is \<open>strings.ToLower\<close>; \<open>ProtocolVersion\<close> and
  \<open>BuildVersion\<close> are the constants of package chshare, declared in a file that is not
  part of the handler's; \<open>upgradeErr\<close> is the error of \<open>upgrader.Upgrade\<close>, if any;
  \<open>handshake\<close> is the result of \<open>ssh.NewServerConn\<close>, the error or the session
  identifier of the connection; \<open>firstRequest\<close> is what the \<open>select\<close> receives from the
  request channel, \<open>None\<close> when the timer fires first; \<open>envDurations\<close> gives the duration
  held by an environment variable; \<open>DecodeConfig\<close> is \<open>settings.DecodeConfig\<close>;
  \<open>waitErr\<close> is the text of the error returned by \<open>eg.Wait()\<close>, \<open>None\<close> for nil.
  What the upgrader and the handshake themselves send to the peer is outside the model.
\<close>

record env =
  ToLower :: "string \<Rightarrow> string"
  ProtocolVersion :: string
  BuildVersion :: string
  upgradeErr :: "string option"
  handshake :: "string + string"
  firstRequest :: "ssh_request option"
  envDurations :: "string \<rightharpoonup> int"
  DecodeConfig :: "string \<Rightarrow> config option"
  waitErr :: "string option"

subsection \<open>Effects\<close>

definition emit :: "event \<Rightarrow> state \<Rightarrow> state" where
  "emit ev st = st\<lparr>trace := trace st @ [ev]\<rparr>"

definition Infof :: "logger \<Rightarrow> string \<Rightarrow> state \<Rightarrow> state" where
  "Infof l msg st = emit (Info l msg) st"

definition Debugf :: "logger \<Rightarrow> string \<Rightarrow> state \<Rightarrow> state" where
  "Debugf l msg st = emit (Debug l msg) st"

definition wWrite :: "string \<Rightarrow> state \<Rightarrow> state" where
  "wWrite b st = st\<lparr>w := Write b (w st)\<rparr>"

definition wWriteHeader :: "nat \<Rightarrow> state \<Rightarrow> state" where
  "wWriteHeader code st = st\<lparr>w := WriteHeader code (w st)\<rparr>"

text \<open>
  Modelled from the spec: \<open>Logger.Errorf\<close> (package cio) is not among the sources. The
  spec gives the text of each negative reply as the formatted message itself
  (\<open>"invalid config"\<close>, \<open>"access to '<addr>' denied"\<close>), so the error built from a
  formatted message has that message as its text.
\<close>

definition Errorf :: "string \<Rightarrow> string" where
  "Errorf msg = msg"

text \<open>
  Modelled from the spec: \<open>settings.EnvDuration\<close> is not among the sources. The spec
  says that the timeout has a default which the named environment variable, a duration
  string, overrides.
\<close>

definition EnvDuration :: "env \<Rightarrow> string \<Rightarrow> int \<Rightarrow> int" where
  "EnvDuration e name def = (case envDurations e name of None \<Rightarrow> def | Some d \<Rightarrow> d)"

text \<open>\<open>time.Second\<close>, in nanoseconds.\<close>

definition Second :: int where
  "Second = 1000000000"

text \<open>
  Modelled from the spec: \<open>Remotes.Reversed\<close> is not among the sources. The spec
  describes it as the filter that keeps the reverse-marked entries, in order.
\<close>

definition Reversed :: "bool \<Rightarrow> remote list \<Rightarrow> remote list" where
  "Reversed b rs = filter (\<lambda>r. Reverse r = b) rs"

subsection \<open>handleWebsocket\<close>

text \<open>The closure \<open>failed\<close>: a debug line, then the negative reply with the error text.\<close>

definition failed :: "logger \<Rightarrow> string \<Rightarrow> state \<Rightarrow> state" where
  "failed l err st = emit (Reply False err) (Debugf l (''failed: '' @ err) st)"

text \<open>
  Pulling the user from the session map: with users configured, the ticket stored under
  the session identifier is read and deleted; a missing ticket is the panic.
\<close>

definition pull_user :: "server \<Rightarrow> string \<Rightarrow> state \<Rightarrow> string + (user option \<times> state)" where
  "pull_user s sid st =
     (if length (users s) > 0 then
        (case sessions st sid of
           None \<Rightarrow> Inl ''bug in ssh auth handler''
         | Some u \<Rightarrow> Inr (Some u, st\<lparr>sessions := (sessions st)(sid := None)\<rparr>))
      else Inr (None, st))"

text \<open>
  The loop over \<open>c.Remotes\<close>. The result says whether the loop ran to its end; when it
  did not, the reply has been sent and the handler returns.
\<close>

fun validate_remotes ::
  "server \<Rightarrow> logger \<Rightarrow> user option \<Rightarrow> remote list \<Rightarrow> state \<Rightarrow> bool \<times> state" where
  "validate_remotes s l usr [] st = (True, st)"
| "validate_remotes s l usr (r # rs) st =
     (let addr = UserAddr r in
      if (case usr of None \<Rightarrow> False | Some u \<Rightarrow> \<not> HasAccess u addr) then
        (False, failed l (Errorf (''access to '' @ squote @ addr @ squote @ '' denied'')) st)
      else if Reverse r \<and> \<not> cfgReverse (config s) then
        (False, failed l (Errorf ''reverse port forwarding not enabled on server'')
           (Debugf l ''denied reverse port forwarding request, please enable --reverse'' st))
      else if Reverse r \<and> \<not> CanListen r then
        (False, failed l (Errorf (''server cannot listen on '' @ String r)) st)
      else validate_remotes s l usr rs st)"

text \<open>The version check: one info line when the versions differ.\<close>

definition check_version :: "env \<Rightarrow> logger \<Rightarrow> config \<Rightarrow> state \<Rightarrow> state" where
  "check_version e l c st =
     (if Version c \<noteq> BuildVersion e then
        (let v = (if Version c = [] then ''<unknown>'' else Version c) in
         Infof l (''client version ('' @ v @ '') differs from server version (''
                    @ BuildVersion e @ '')'') st)
      else st)"

text \<open>
  The tunnel: created from the server's settings and bound by two tasks of an error
  group, which run concurrently; the trace lists them in the order of the source. The
  second task binds the reversed remotes, unless there are none.
\<close>

definition bind_tunnel :: "server \<Rightarrow> config \<Rightarrow> state \<Rightarrow> state" where
  "bind_tunnel s c st =
     (let st1 = emit (TunnelNew \<lparr>Inbound = cfgReverse (config s), Outbound = True,
                                 Socks = Socks5 (config s),
                                 tunKeepAlive = KeepAlive (config s)\<rparr>) st;
          st2 = emit BindSSH st1;
          serverInbound = Reversed True (Remotes c)
      in if length serverInbound = 0 then st2 else emit (BindRemotes serverInbound) st2)"

text \<open>The last lines: how the end of the session is logged.\<close>

definition log_closed :: "logger \<Rightarrow> string option \<Rightarrow> state \<Rightarrow> state" where
  "log_closed l err st =
     (case err of
        None \<Rightarrow> Debugf l ''closed connection'' st
      | Some txt \<Rightarrow>
          if \<not> HasSuffix txt ''EOF'' then Debugf l (''closed connection ('' @ txt @ '')'') st
          else Debugf l ''closed connection'' st)"

text \<open>From the decoded config to the end of the handler.\<close>

definition serve_config ::
  "server \<Rightarrow> env \<Rightarrow> logger \<Rightarrow> user option \<Rightarrow> config \<Rightarrow> state \<Rightarrow> state" where
  "serve_config s e l usr c st =
     (case validate_remotes s l usr (Remotes c) (check_version e l c st) of
        (False, st') \<Rightarrow> st'
      | (True, st') \<Rightarrow>
          log_closed l (waitErr e) (bind_tunnel s c (emit (Reply True []) st')))"

text \<open>
  From the completed handshake on: the wait for the first request under the timeout,
  its type, its decoding.
\<close>

definition config_exchange ::
  "server \<Rightarrow> env \<Rightarrow> logger \<Rightarrow> user option \<Rightarrow> state \<Rightarrow> state" where
  "config_exchange s e l usr st =
     (let st1 = Debugf l ''verifying configuration'' st;
          st2 = emit (TimeAfter (EnvDuration e ''CONFIG_TIMEOUT'' (10 * Second))) st1
      in case firstRequest e of
           None \<Rightarrow> emit Close (Debugf l ''timeout waiting for configuration'' st2)
         | Some r \<Rightarrow>
             if Type r \<noteq> ''config'' then failed l (Errorf ''expecting config request'') st2
             else (case DecodeConfig e (Payload r) of
                     None \<Rightarrow> failed l (Errorf ''invalid config'') st2
                   | Some c \<Rightarrow> serve_config s e l usr c st2))"

definition handleWebsocket :: "server \<Rightarrow> env \<Rightarrow> request \<Rightarrow> state \<Rightarrow> string + state" where
  "handleWebsocket s e req st =
     (let id = sessCount st + 1;
          l = SessionLogger id;
          st1 = emit Upgrade (st\<lparr>sessCount := id\<rparr>)
      in case upgradeErr e of
           Some err \<Rightarrow> Inr (Debugf l (''failed to upgrade ('' @ err @ '')'') st1)
         | None \<Rightarrow>
             (let st2 = emit NewServerConn
                          (Debugf l (''handshaking with '' @ RemoteAddr req @ ''...'') st1)
              in case handshake e of
                   Inl err \<Rightarrow>
                     Inr (Debugf ServerLogger (''failed to handshake ('' @ err @ '')'') st2)
                 | Inr sid \<Rightarrow>
                     (case pull_user s sid st2 of
                        Inl p \<Rightarrow> Inl p
                      | Inr (usr, st3) \<Rightarrow> Inr (config_exchange s e l usr st3))))"

subsection \<open>handleClientHandler\<close>

text \<open>The part after the upgrade block: proxy, health and version, 404.\<close>

definition fall_through :: "server \<Rightarrow> env \<Rightarrow> request \<Rightarrow> state \<Rightarrow> state" where
  "fall_through s e r st =
     (case reverseProxy s of
        Some proxy \<Rightarrow> st\<lparr>w := proxy r (w st)\<rparr>
      | None \<Rightarrow>
          if \<not> Obfs (config s) \<and> Path r = ''/health'' then wWrite (''OK'' @ newline) st
          else if \<not> Obfs (config s) \<and> Path r = ''/version'' then wWrite (BuildVersion e) st
          else wWrite (Resp404 (config s)) (wWriteHeader 404 st))"

definition handleClientHandler :: "server \<Rightarrow> env \<Rightarrow> request \<Rightarrow> state \<Rightarrow> string + state" where
  "handleClientHandler s e r st =
     (let upgrade = ToLower e (Get (Header r) ''Upgrade'');
          protocol = Get (Header r) ''Sec-WebSocket-Protocol'';
          wsPsk = Get (Header r) ''X-Penguin-Psk''
      in if upgrade = ''websocket'' \<and> HasPrefix protocol ''penguin-'' then
           (if Psk (config s) = [] \<or> wsPsk = Psk (config s) then
              (if protocol = ProtocolVersion e then handleWebsocket s e r st
               else Inr (fall_through s e r
                      (Infof ServerLogger
                         (''ignoring client connection using protocol '' @ squote @ protocol
                            @ squote @ '', expected '' @ squote @ ProtocolVersion e @ squote)
                         st)))
            else Inr (fall_through s e r
                   (Infof ServerLogger
                      (''ignoring client connection with incorrect or missing PSK ''
                         @ squote @ wsPsk @ squote)
                      st)))
         else Inr (fall_through s e r st))"

subsection \<open>Reading a trace\<close>

fun is_reply :: "event \<Rightarrow> bool" where
  "is_reply (Reply _ _) = True"
| "is_reply _ = False"

fun is_info :: "event \<Rightarrow> bool" where
  "is_info (Info _ _) = True"
| "is_info _ = False"

fun is_debug :: "event \<Rightarrow> bool" where
  "is_debug (Debug _ _) = True"
| "is_debug _ = False"

fun is_tunnel :: "event \<Rightarrow> bool" where
  "is_tunnel (TunnelNew _) = True"
| "is_tunnel BindSSH = True"
| "is_tunnel (BindRemotes _) = True"
| "is_tunnel _ = False"

text \<open>
  For a call of \<open>handleWebsocket\<close> in state \<open>st\<close>: the logger it forks, the user it
  attaches to the session once the handshake has given the session identifier \<open>sid\<close>,
  and the events up to the completed handshake.
\<close>

definition session_logger :: "state \<Rightarrow> logger" where
  "session_logger st = SessionLogger (sessCount st + 1)"

definition session_user :: "server \<Rightarrow> state \<Rightarrow> string \<Rightarrow> user option" where
  "session_user s st sid = (if length (users s) > 0 then sessions st sid else None)"

definition handshake_events :: "request \<Rightarrow> state \<Rightarrow> event list" where
  "handshake_events req st =
     [Upgrade,
      Debug (session_logger st) (''handshaking with '' @ RemoteAddr req @ ''...''),
      NewServerConn]"

subsection \<open>The validation of the remotes, as the specification words it\<close>

text \<open>
  The three checks on one remote, in sequence, with the text of the negative reply of
  the first that fails; and the validation of the list, which ends at the first remote
  that fails a check.
\<close>

definition claim_check :: "server \<Rightarrow> user option \<Rightarrow> remote \<Rightarrow> string option" where
  "claim_check s usr r =
     (if (case usr of None \<Rightarrow> False | Some u \<Rightarrow> \<not> HasAccess u (UserAddr r))
      then Some (''access to '' @ squote @ UserAddr r @ squote @ '' denied'')
      else if Reverse r \<and> \<not> cfgReverse (config s)
      then Some ''reverse port forwarding not enabled on server''
      else if Reverse r \<and> \<not> CanListen r
      then Some (''server cannot listen on '' @ String r)
      else None)"

definition claim_validate :: "server \<Rightarrow> user option \<Rightarrow> remote list \<Rightarrow> string option" where
  "claim_validate s usr rs =
     (case List.find (\<lambda>r. claim_check s usr r \<noteq> None) rs of
        None \<Rightarrow> None
      | Some r \<Rightarrow> claim_check s usr r)"

subsection \<open>Example inputs\<close>

text \<open>\<open>strings.ToLower\<close> on ASCII text, for the examples.\<close>

definition lower_byte :: "char \<Rightarrow> char" where
  "lower_byte c =
     (case map_of (zip ''ABCDEFGHIJKLMNOPQRSTUVWXYZ'' ''abcdefghijklmnopqrstuvwxyz'') c of
        None \<Rightarrow> c
      | Some d \<Rightarrow> d)"

definition lower_ascii :: "string \<Rightarrow> string" where
  "lower_ascii s = map lower_byte s"

definition ex_config :: server_config where
  "ex_config = \<lparr>Psk = ''right'', Obfs = False, Resp404 = ''Not found'', cfgReverse = False,
                 Socks5 = False, KeepAlive = 0\<rparr>"

definition ex_server :: server where
  "ex_server = \<lparr>config = ex_config, reverseProxy = None, users = []\<rparr>"

definition ex_user :: user where
  "ex_user = \<lparr>Name = ''alice'', HasAccess = (\<lambda>addr. addr = ''localhost:22'')\<rparr>"

definition ex_server_users :: server where
  "ex_server_users = \<lparr>config = ex_config, reverseProxy = None, users = [ex_user]\<rparr>"

definition ex_remote :: remote where
  "ex_remote = \<lparr>Reverse = False, UserAddr = ''localhost:22'', CanListen = True,
                 String = ''8080=>localhost:22''\<rparr>"

definition ex_remote_reverse :: remote where
  "ex_remote_reverse = \<lparr>Reverse = True, UserAddr = ''0.0.0.0:8080'', CanListen = True,
                         String = ''R:8080=>localhost:22''\<rparr>"

definition ex_cfg :: config where
  "ex_cfg = \<lparr>Version = ''0.0.1'', Remotes = [ex_remote, ex_remote_reverse]\<rparr>"

definition ex_env :: env where
  "ex_env = \<lparr>ToLower = lower_ascii, ProtocolVersion = ''penguin-v1'', BuildVersion = ''1.2.3'',
             upgradeErr = None, handshake = Inr ''sid'',
             firstRequest = Some \<lparr>Type = ''config'', Payload = ''cfg''\<rparr>,
             envDurations = Map.empty,
             DecodeConfig = (\<lambda>p. if p = ''cfg'' then Some ex_cfg else None),
             waitErr = Some ''unexpected EOF''\<rparr>"

definition ex_state :: state where
  "ex_state = \<lparr>w = new_response, trace = [], sessions = Map.empty, sessCount = 0\<rparr>"

definition ex_state_ticket :: state where
  "ex_state_ticket = \<lparr>w = new_response, trace = [], sessions = [''sid'' \<mapsto> ex_user],
                       sessCount = 0\<rparr>"

definition ex_request_psk :: request where
  "ex_request_psk =
     \<lparr>Header = [''Upgrade'' \<mapsto> [''WebSocket''],
                 ''Sec-WebSocket-Protocol'' \<mapsto> [''penguin-v1''],
                 ''X-Penguin-Psk'' \<mapsto> [''wrong'']],
      Path = ''/'', Method = ''GET'', RemoteAddr = ''10.0.0.1:5000''\<rparr>"

definition ex_request_health :: request where
  "ex_request_health =
     \<lparr>Header = Map.empty, Path = ''/health'', Method = ''GET'', RemoteAddr = ''10.0.0.1:5000''\<rparr>"

section \<open>Properties\<close>

subsection \<open>What each effect leaves alone\<close>

lemma trace_fall_through: "trace (fall_through s e r st) = trace st"
  by (simp add: fall_through_def wWrite_def wWriteHeader_def split: option.splits)

lemma sessCount_fall_through: "sessCount (fall_through s e r st) = sessCount st"
  by (simp add: fall_through_def wWrite_def wWriteHeader_def split: option.splits)

lemma Write_new_response:
  "Write b new_response = \<lparr>wroteHeader = True, status = 200, body = b\<rparr>"
  by (simp add: Write_def WriteHeader_def new_response_def)

lemma Write_404_new_response:
  "Write b (WriteHeader 404 new_response) = \<lparr>wroteHeader = True, status = 404, body = b\<rparr>"
  by (simp add: Write_def WriteHeader_def new_response_def)

lemma w_fall_through:
  "w st = new_response \<Longrightarrow>
   w (fall_through s e r st) =
     (case reverseProxy s of
        Some proxy \<Rightarrow> proxy r new_response
      | None \<Rightarrow>
          if \<not> Obfs (config s) \<and> Path r = ''/health''
          then \<lparr>wroteHeader = True, status = 200, body = ''OK'' @ newline\<rparr>
          else if \<not> Obfs (config s) \<and> Path r = ''/version''
          then \<lparr>wroteHeader = True, status = 200, body = BuildVersion e\<rparr>
          else \<lparr>wroteHeader = True, status = 404, body = Resp404 (config s)\<rparr>)"
  by (simp add: fall_through_def wWrite_def wWriteHeader_def Write_new_response
      Write_404_new_response split: option.splits)

lemma not_upgraded_falls_through:
  assumes "\<not> (ToLower e (Get (Header r) ''Upgrade'') = ''websocket''
              \<and> HasPrefix (Get (Header r) ''Sec-WebSocket-Protocol'') ''penguin-''
              \<and> (Psk (config s) = [] \<or> Get (Header r) ''X-Penguin-Psk'' = Psk (config s))
              \<and> Get (Header r) ''Sec-WebSocket-Protocol'' = ProtocolVersion e)"
  shows "\<exists>st0. w st0 = w st \<and> handleClientHandler s e r st = Inr (fall_through s e r st0)"
proof -
  have "\<And>ev. w (Infof ServerLogger ev st) = w st"
    by (simp add: Infof_def emit_def)
  then show ?thesis
    using assms by (auto simp add: handleClientHandler_def Let_def)
qed

subsection \<open>The dispatcher\<close>

text \<open>
  C1 (PSK enforcement). The server has a non-empty pre-shared key, the request is a
  candidate for the tunnel upgrade (its Upgrade header is "websocket" once lowered and
  its sub-protocol begins with "penguin-"), and its X-Penguin-Psk header is absent or
  differs from the key. Then the handler does not panic, the only event it adds to the
  trace is the info line about the incorrect or missing PSK (so no upgrade is attempted
  and the session counter stays), and the rest of its work is the non-tunnel path.
\<close>

theorem psk_enforcement:
  assumes "Psk (config s) \<noteq> []"
    and "ToLower e (Get (Header r) ''Upgrade'') = ''websocket''"
    and "HasPrefix (Get (Header r) ''Sec-WebSocket-Protocol'') ''penguin-''"
    and "Header r ''X-Penguin-Psk'' = None
         \<or> Get (Header r) ''X-Penguin-Psk'' \<noteq> Psk (config s)"
  shows "\<exists>st'. handleClientHandler s e r st = Inr st'
           \<and> trace st' = trace st @ [Info ServerLogger
                (''ignoring client connection with incorrect or missing PSK ''
                   @ squote @ Get (Header r) ''X-Penguin-Psk'' @ squote)]
           \<and> Upgrade \<notin> set (trace st') - set (trace st)
           \<and> sessCount st' = sessCount st
           \<and> st' = fall_through s e r (st\<lparr>trace := trace st'\<rparr>)"
proof -
  from assms(1,4) have ne: "Get (Header r) ''X-Penguin-Psk'' \<noteq> Psk (config s)"
    by (auto simp: Get_def)
  show ?thesis
    using assms(1-3) ne
    by (simp add: handleClientHandler_def Let_def trace_fall_through sessCount_fall_through
        Infof_def emit_def)
qed

theorem psk_enforcement_witness:
  "Psk (config ex_server) \<noteq> []
   \<and> ToLower ex_env (Get (Header ex_request_psk) ''Upgrade'') = ''websocket''
   \<and> HasPrefix (Get (Header ex_request_psk) ''Sec-WebSocket-Protocol'') ''penguin-''
   \<and> Get (Header ex_request_psk) ''X-Penguin-Psk'' \<noteq> Psk (config ex_server)
   \<and> (\<exists>st'. handleClientHandler ex_server ex_env ex_request_psk ex_state = Inr st'
          \<and> trace st' = [Info ServerLogger
               (''ignoring client connection with incorrect or missing PSK ''
                  @ squote @ ''wrong'' @ squote)]
          \<and> Upgrade \<notin> set (trace st')
          \<and> status (w st') = 404 \<and> body (w st') = ''Not found'')"
proof -
  have h1: "Psk (config ex_server) \<noteq> []"
    by (simp add: ex_server_def ex_config_def)
  have h2: "ToLower ex_env (Get (Header ex_request_psk) ''Upgrade'') = ''websocket''"
    by (simp add: ex_env_def ex_request_psk_def Get_def lower_ascii_def lower_byte_def)
  have h3: "HasPrefix (Get (Header ex_request_psk) ''Sec-WebSocket-Protocol'') ''penguin-''"
    by (simp add: ex_request_psk_def Get_def HasPrefix_def)
  have h4: "Get (Header ex_request_psk) ''X-Penguin-Psk'' \<noteq> Psk (config ex_server)"
    by (simp add: ex_request_psk_def Get_def ex_server_def ex_config_def)
  have g: "Get (Header ex_request_psk) ''X-Penguin-Psk'' = ''wrong''"
    by (simp add: ex_request_psk_def Get_def)
  from psk_enforcement [OF h1 h2 h3 disjI2 [OF h4], of ex_state]
  obtain st' where r: "handleClientHandler ex_server ex_env ex_request_psk ex_state = Inr st'"
    and t: "trace st' = trace ex_state @ [Info ServerLogger
                (''ignoring client connection with incorrect or missing PSK ''
                   @ squote @ Get (Header ex_request_psk) ''X-Penguin-Psk'' @ squote)]"
    and f: "st' = fall_through ex_server ex_env ex_request_psk (ex_state\<lparr>trace := trace st'\<rparr>)"
    by blast
  have ws: "w (ex_state\<lparr>trace := trace st'\<rparr>) = new_response"
    by (simp add: ex_state_def)
  have "w st' = \<lparr>wroteHeader = True, status = 404, body = ''Not found''\<rparr>"
    using w_fall_through [OF ws, of ex_server ex_env ex_request_psk] f
    by (simp add: ex_server_def ex_config_def ex_request_psk_def)
  then show ?thesis
    using h1 h2 h3 h4 r t g by (simp add: ex_state_def)
qed

text \<open>
  C3 (fall-through precedence). The request is not handed to the tunnel: one of the
  conditions of the upgrade block fails. Then the handler does not panic, and on a fresh
  response writer the response is: what the reverse proxy serves, when one is configured;
  otherwise, with obfuscation off, status 200 with body "OK\\n" on path "/health" and
  status 200 with the build version on path "/version"; and status 404 with the
  configured body in every other case, so on every path when obfuscation is on.
\<close>

theorem fall_through_precedence:
  assumes "\<not> (ToLower e (Get (Header r) ''Upgrade'') = ''websocket''
              \<and> HasPrefix (Get (Header r) ''Sec-WebSocket-Protocol'') ''penguin-''
              \<and> (Psk (config s) = [] \<or> Get (Header r) ''X-Penguin-Psk'' = Psk (config s))
              \<and> Get (Header r) ''Sec-WebSocket-Protocol'' = ProtocolVersion e)"
    and "w st = new_response"
  shows "\<exists>st'. handleClientHandler s e r st = Inr st'
           \<and> w st' =
               (case reverseProxy s of
                  Some proxy \<Rightarrow> proxy r new_response
                | None \<Rightarrow>
                    if \<not> Obfs (config s) \<and> Path r = ''/health''
                    then \<lparr>wroteHeader = True, status = 200, body = ''OK'' @ newline\<rparr>
                    else if \<not> Obfs (config s) \<and> Path r = ''/version''
                    then \<lparr>wroteHeader = True, status = 200, body = BuildVersion e\<rparr>
                    else \<lparr>wroteHeader = True, status = 404, body = Resp404 (config s)\<rparr>)"
proof -
  from not_upgraded_falls_through [OF assms(1), of st]
  obtain st0 where "w st0 = w st"
    and "handleClientHandler s e r st = Inr (fall_through s e r st0)"
    by blast
  with assms(2) show ?thesis
    by (simp add: w_fall_through)
qed

theorem fall_through_precedence_witness:
  "\<not> (ToLower ex_env (Get (Header ex_request_health) ''Upgrade'') = ''websocket''
      \<and> HasPrefix (Get (Header ex_request_health) ''Sec-WebSocket-Protocol'') ''penguin-''
      \<and> (Psk (config ex_server) = []
          \<or> Get (Header ex_request_health) ''X-Penguin-Psk'' = Psk (config ex_server))
      \<and> Get (Header ex_request_health) ''Sec-WebSocket-Protocol'' = ProtocolVersion ex_env)
   \<and> w ex_state = new_response
   \<and> (\<exists>st'. handleClientHandler ex_server ex_env ex_request_health ex_state = Inr st'
          \<and> w st' = \<lparr>wroteHeader = True, status = 200, body = ''OK'' @ newline\<rparr>)"
proof -
  have h1: "\<not> (ToLower ex_env (Get (Header ex_request_health) ''Upgrade'') = ''websocket''
      \<and> HasPrefix (Get (Header ex_request_health) ''Sec-WebSocket-Protocol'') ''penguin-''
      \<and> (Psk (config ex_server) = []
          \<or> Get (Header ex_request_health) ''X-Penguin-Psk'' = Psk (config ex_server))
      \<and> Get (Header ex_request_health) ''Sec-WebSocket-Protocol'' = ProtocolVersion ex_env)"
    by (simp add: ex_request_health_def Get_def HasPrefix_def)
  have h2: "w ex_state = new_response"
    by (simp add: ex_state_def)
  show ?thesis
    using h1 h2 fall_through_precedence [OF h1 h2]
    by (simp add: ex_server_def ex_config_def ex_request_health_def)
qed

text \<open>
  C10 (the method is not inspected). For a request that is not handed to the tunnel, on a
  server with no reverse proxy and obfuscation off, changing the HTTP method to any
  \<open>m\<close> changes nothing of what the handler does, and with any method path "/health"
  is answered by status 200 and body "OK\\n", path "/version" by status 200 and the build
  version.
\<close>

theorem health_version_any_method:
  assumes "\<not> (ToLower e (Get (Header r) ''Upgrade'') = ''websocket''
              \<and> HasPrefix (Get (Header r) ''Sec-WebSocket-Protocol'') ''penguin-''
              \<and> (Psk (config s) = [] \<or> Get (Header r) ''X-Penguin-Psk'' = Psk (config s))
              \<and> Get (Header r) ''Sec-WebSocket-Protocol'' = ProtocolVersion e)"
    and "reverseProxy s = None"
    and "\<not> Obfs (config s)"
    and "w st = new_response"
  shows "handleClientHandler s e (r\<lparr>Method := m\<rparr>) st = handleClientHandler s e r st
         \<and> (\<exists>st'. handleClientHandler s e (r\<lparr>Method := m\<rparr>) st = Inr st'
               \<and> (Path r = ''/health'' \<longrightarrow>
                    w st' = \<lparr>wroteHeader = True, status = 200, body = ''OK'' @ newline\<rparr>)
               \<and> (Path r = ''/version'' \<longrightarrow>
                    w st' = \<lparr>wroteHeader = True, status = 200, body = BuildVersion e\<rparr>))"
proof -
  have same: "handleClientHandler s e (r\<lparr>Method := m\<rparr>) st = handleClientHandler s e r st"
    using assms(1,2)
    by (auto simp add: handleClientHandler_def Let_def fall_through_def)
  from not_upgraded_falls_through [OF assms(1), of st]
  obtain st0 where "w st0 = w st"
    and "handleClientHandler s e r st = Inr (fall_through s e r st0)"
    by blast
  with same assms(2-4) show ?thesis
    by (simp add: w_fall_through)
qed

theorem health_version_any_method_witness:
  "\<not> (ToLower ex_env (Get (Header ex_request_health) ''Upgrade'') = ''websocket''
      \<and> HasPrefix (Get (Header ex_request_health) ''Sec-WebSocket-Protocol'') ''penguin-''
      \<and> (Psk (config ex_server) = []
          \<or> Get (Header ex_request_health) ''X-Penguin-Psk'' = Psk (config ex_server))
      \<and> Get (Header ex_request_health) ''Sec-WebSocket-Protocol'' = ProtocolVersion ex_env)
   \<and> reverseProxy ex_server = None \<and> \<not> Obfs (config ex_server) \<and> w ex_state = new_response
   \<and> (\<exists>st'. handleClientHandler ex_server ex_env (ex_request_health\<lparr>Method := ''DELETE''\<rparr>)
               ex_state = Inr st'
          \<and> w st' = \<lparr>wroteHeader = True, status = 200, body = ''OK'' @ newline\<rparr>)"
proof -
  have h1: "\<not> (ToLower ex_env (Get (Header ex_request_health) ''Upgrade'') = ''websocket''
      \<and> HasPrefix (Get (Header ex_request_health) ''Sec-WebSocket-Protocol'') ''penguin-''
      \<and> (Psk (config ex_server) = []
          \<or> Get (Header ex_request_health) ''X-Penguin-Psk'' = Psk (config ex_server))
      \<and> Get (Header ex_request_health) ''Sec-WebSocket-Protocol'' = ProtocolVersion ex_env)"
    by (simp add: ex_request_health_def Get_def HasPrefix_def)
  have h2: "reverseProxy ex_server = None" and h3: "\<not> Obfs (config ex_server)"
    by (simp_all add: ex_server_def ex_config_def)
  have h4: "w ex_state = new_response"
    by (simp add: ex_state_def)
  have p: "Path ex_request_health = ''/health''"
    by (simp add: ex_request_health_def)
  show ?thesis
    using h1 h2 h3 h4 p health_version_any_method [OF h1 h2 h3 h4, of "''DELETE''", THEN conjunct2]
    by simp
qed

subsection \<open>The session supervisor\<close>

lemma emit_upd: "emit ev (st\<lparr>trace := t\<rparr>) = st\<lparr>trace := t @ [ev]\<rparr>"
  by (simp add: emit_def)

lemma emit_eq: "emit ev st = st\<lparr>trace := trace st @ [ev]\<rparr>"
  by (simp add: emit_def)

lemma failed_eq:
  "failed l err st = st\<lparr>trace := trace st @ [Debug l (''failed: '' @ err), Reply False err]\<rparr>"
  by (simp add: failed_def Debugf_def emit_def)

lemma debug_only:
  assumes "list_all is_debug evs"
  shows "filter is_reply evs = []" and "filter is_info evs = []" and "filter is_tunnel evs = []"
    and "Close \<notin> set evs" and "BindSSH \<notin> set evs"
proof -
  have "\<And>ev. is_debug ev \<Longrightarrow> \<not> is_reply ev \<and> \<not> is_info ev \<and> \<not> is_tunnel ev
          \<and> ev \<noteq> Close \<and> ev \<noteq> BindSSH"
    by (case_tac ev) simp_all
  with assms show "filter is_reply evs = []" and "filter is_info evs = []"
    and "filter is_tunnel evs = []" and "Close \<notin> set evs" and "BindSSH \<notin> set evs"
    by (auto simp add: filter_empty_conv list_all_iff)
qed

lemma claim_validate_Nil: "claim_validate s usr [] = None"
  by (simp add: claim_validate_def)

lemma claim_validate_Cons:
  "claim_validate s usr (r # rs) =
     (case claim_check s usr r of None \<Rightarrow> claim_validate s usr rs | Some m \<Rightarrow> Some m)"
  by (auto simp add: claim_validate_def split: option.splits)

lemma validate_remotes_pass:
  "claim_check s usr r = None \<Longrightarrow>
   validate_remotes s l usr (r # rs) st = validate_remotes s l usr rs st"
  by (auto simp add: claim_check_def Let_def split: if_splits option.splits)

lemma validate_remotes_fault:
  assumes "claim_check s usr r = Some msg"
  shows "\<exists>pre. list_all is_debug pre
           \<and> (\<forall>st. validate_remotes s l usr (r # rs) st =
                      (False, st\<lparr>trace := trace st @ pre @ [Reply False msg]\<rparr>))"
proof -
  consider (access) "case usr of None \<Rightarrow> False | Some u \<Rightarrow> \<not> HasAccess u (UserAddr r)"
    | (reverse) "\<not> (case usr of None \<Rightarrow> False | Some u \<Rightarrow> \<not> HasAccess u (UserAddr r))"
        "Reverse r \<and> \<not> cfgReverse (config s)"
    | (listen) "\<not> (case usr of None \<Rightarrow> False | Some u \<Rightarrow> \<not> HasAccess u (UserAddr r))"
        "\<not> (Reverse r \<and> \<not> cfgReverse (config s))" "Reverse r \<and> \<not> CanListen r"
    using assms by (auto simp add: claim_check_def split: if_splits)
  then show ?thesis
  proof cases
    case access
    with assms have m: "msg = ''access to '' @ squote @ UserAddr r @ squote @ '' denied''"
      by (simp add: claim_check_def)
    have "list_all is_debug [Debug l (''failed: '' @ msg)]" by simp
    moreover have "\<forall>st. validate_remotes s l usr (r # rs) st =
        (False, st\<lparr>trace := trace st @ [Debug l (''failed: '' @ msg)] @ [Reply False msg]\<rparr>)"
      using access m by (simp add: Let_def failed_eq Errorf_def)
    ultimately show ?thesis by blast
  next
    case reverse
    with assms have m: "msg = ''reverse port forwarding not enabled on server''"
      by (simp add: claim_check_def)
    have "list_all is_debug
        [Debug l ''denied reverse port forwarding request, please enable --reverse'',
         Debug l (''failed: '' @ msg)]" by simp
    moreover have "\<forall>st. validate_remotes s l usr (r # rs) st =
        (False, st\<lparr>trace := trace st @
           [Debug l ''denied reverse port forwarding request, please enable --reverse'',
            Debug l (''failed: '' @ msg)] @ [Reply False msg]\<rparr>)"
      using reverse m by (simp add: Let_def failed_eq Errorf_def Debugf_def emit_def)
    ultimately show ?thesis by blast
  next
    case listen
    with assms have m: "msg = ''server cannot listen on '' @ String r"
      by (simp add: claim_check_def)
    have "list_all is_debug [Debug l (''failed: '' @ msg)]" by simp
    moreover have "\<forall>st. validate_remotes s l usr (r # rs) st =
        (False, st\<lparr>trace := trace st @ [Debug l (''failed: '' @ msg)] @ [Reply False msg]\<rparr>)"
      using listen m by (simp add: Let_def failed_eq Errorf_def)
    ultimately show ?thesis by blast
  qed
qed

lemma validate_remotes_claim:
  "\<exists>pre. list_all is_debug pre
     \<and> (\<forall>st. validate_remotes s l usr rs st =
                (case claim_validate s usr rs of
                   None \<Rightarrow> (True, st)
                 | Some msg \<Rightarrow> (False, st\<lparr>trace := trace st @ pre @ [Reply False msg]\<rparr>)))"
proof (induction rs)
  case Nil
  have "list_all is_debug []
      \<and> (\<forall>st. validate_remotes s l usr [] st =
                (case claim_validate s usr [] of
                   None \<Rightarrow> (True, st)
                 | Some msg \<Rightarrow> (False, st\<lparr>trace := trace st @ [] @ [Reply False msg]\<rparr>)))"
    by (simp add: claim_validate_Nil)
  then show ?case by blast
next
  case (Cons r rs)
  show ?case
  proof (cases "claim_check s usr r")
    case None
    with Cons show ?thesis
      by (simp add: claim_validate_Cons validate_remotes_pass del: validate_remotes.simps)
  next
    case (Some msg)
    from validate_remotes_fault [OF Some, of l rs] Some show ?thesis
      by (simp add: claim_validate_Cons del: validate_remotes.simps)
  qed
qed

lemma check_version_eq:
  "check_version e l c st =
     st\<lparr>trace := trace st @
        (if Version c \<noteq> BuildVersion e
         then [Info l (''client version ('' @ (if Version c = [] then ''<unknown>'' else Version c)
                         @ '') differs from server version ('' @ BuildVersion e @ '')'')]
         else [])\<rparr>"
  by (simp add: check_version_def Infof_def emit_def Let_def)

lemma bind_tunnel_eq:
  "bind_tunnel s c st =
     st\<lparr>trace := trace st @
        TunnelNew \<lparr>Inbound = cfgReverse (config s), Outbound = True, Socks = Socks5 (config s),
                   tunKeepAlive = KeepAlive (config s)\<rparr>
        # BindSSH
        # (if Reversed True (Remotes c) = [] then []
           else [BindRemotes (Reversed True (Remotes c))])\<rparr>"
  by (simp add: bind_tunnel_def emit_def Let_def)

lemma HasSuffix_iff: "HasSuffix txt x \<longleftrightarrow> (\<exists>p. txt = p @ x)"
proof
  assume "HasSuffix txt x"
  then have "drop (length txt - length x) txt = x"
    by (simp add: HasSuffix_def)
  then have "txt = take (length txt - length x) txt @ x"
    using append_take_drop_id [of "length txt - length x" "txt"] by simp
  then show "\<exists>p. txt = p @ x" by blast
next
  assume "\<exists>p. txt = p @ x"
  then show "HasSuffix txt x"
    by (auto simp add: HasSuffix_def)
qed

lemma log_closed_eq:
  "log_closed l err st =
     st\<lparr>trace := trace st @
        [Debug l (case err of
                    None \<Rightarrow> ''closed connection''
                  | Some txt \<Rightarrow>
                      if (\<exists>p. txt = p @ ''EOF'') then ''closed connection''
                      else ''closed connection ('' @ txt @ '')'')]\<rparr>"
  by (simp add: log_closed_def Debugf_def emit_def HasSuffix_iff split: option.splits)

text \<open>
  The handler from the decoded config on: the version line, then either the debug lines
  and the negative reply of the first fault, or the positive reply, the tunnel and the
  closing line.
\<close>

lemma serve_config_claim:
  "\<exists>pre. list_all is_debug pre
     \<and> (\<forall>st c e. Remotes c = rs \<longrightarrow>
          serve_config s e l usr c st =
            (case claim_validate s usr rs of
               Some msg \<Rightarrow>
                 st\<lparr>trace := trace (check_version e l c st) @ pre @ [Reply False msg]\<rparr>
             | None \<Rightarrow>
                 log_closed l (waitErr e)
                   (bind_tunnel s c (emit (Reply True []) (check_version e l c st)))))"
proof -
  from validate_remotes_claim [of s l usr rs]
  obtain pre where d: "list_all is_debug pre"
    and v: "\<And>st. validate_remotes s l usr rs st =
                (case claim_validate s usr rs of
                   None \<Rightarrow> (True, st)
                 | Some msg \<Rightarrow> (False, st\<lparr>trace := trace st @ pre @ [Reply False msg]\<rparr>))"
    by blast
  have "\<forall>st c e. Remotes c = rs \<longrightarrow>
          serve_config s e l usr c st =
            (case claim_validate s usr rs of
               Some msg \<Rightarrow>
                 st\<lparr>trace := trace (check_version e l c st) @ pre @ [Reply False msg]\<rparr>
             | None \<Rightarrow>
                 log_closed l (waitErr e)
                   (bind_tunnel s c (emit (Reply True []) (check_version e l c st))))"
    by (auto simp add: serve_config_def v check_version_eq split: option.splits)
  with d show ?thesis by blast
qed

lemma handleWebsocket_handshook:
  assumes "upgradeErr e = None" and "handshake e = Inr sid"
    and "users s = [] \<or> sessions st sid \<noteq> None"
  shows "handleWebsocket s e req st =
           Inr (config_exchange s e (session_logger st) (session_user s st sid)
                  (st\<lparr>sessCount := sessCount st + 1,
                      trace := trace st @ handshake_events req st,
                      sessions := (if users s = [] then sessions st
                                   else (sessions st)(sid := None))\<rparr>))"
proof -
  let ?st2 = "st\<lparr>sessCount := sessCount st + 1, trace := trace st @ handshake_events req st\<rparr>"
  have p: "pull_user s sid ?st2 =
             Inr (session_user s st sid,
                  ?st2\<lparr>sessions := (if users s = [] then sessions st
                                     else (sessions st)(sid := None))\<rparr>)"
    using assms(3)
    by (auto simp add: pull_user_def session_user_def split: option.splits)
  show ?thesis
    using assms(1,2) p
    by (simp add: handleWebsocket_def Let_def emit_def Debugf_def session_logger_def
        handshake_events_def)
qed

lemma config_exchange_eq:
  "config_exchange s e l usr st =
     (let st2 = st\<lparr>trace := trace st @ [Debug l ''verifying configuration'',
                     TimeAfter (EnvDuration e ''CONFIG_TIMEOUT'' (10 * Second))]\<rparr>
      in case firstRequest e of
           None \<Rightarrow> st2\<lparr>trace := trace st2 @ [Debug l ''timeout waiting for configuration'', Close]\<rparr>
         | Some r \<Rightarrow>
             if Type r \<noteq> ''config''
             then st2\<lparr>trace := trace st2 @ [Debug l ''failed: expecting config request'',
                                             Reply False ''expecting config request'']\<rparr>
             else (case DecodeConfig e (Payload r) of
                     None \<Rightarrow> st2\<lparr>trace := trace st2 @ [Debug l ''failed: invalid config'',
                                                        Reply False ''invalid config'']\<rparr>
                   | Some c \<Rightarrow> serve_config s e l usr c st2))"
  by (simp add: config_exchange_def Let_def Debugf_def emit_def failed_eq Errorf_def
      split: option.splits)

text \<open>
  C4 (config first). The handshake has completed and a first out-of-band request \<open>r\<close>
  has arrived. If its type is not "config", or its payload does not decode, the handler
  returns after exactly these events: the debug line of \<open>failed\<close> and one negative
  reply, whose text is "expecting config request" for a wrong type and "invalid config"
  for an undecodable payload. No tunnel is created or bound.
\<close>

theorem config_first:
  assumes "upgradeErr e = None" and "handshake e = Inr sid"
    and "users s = [] \<or> sessions st sid \<noteq> None"
    and "firstRequest e = Some r"
    and "Type r \<noteq> ''config'' \<or> DecodeConfig e (Payload r) = None"
  shows "\<exists>st'. handleWebsocket s e req st = Inr st'
           \<and> trace st' = trace st @ handshake_events req st @
               [Debug (session_logger st) ''verifying configuration'',
                TimeAfter (EnvDuration e ''CONFIG_TIMEOUT'' (10 * Second)),
                Debug (session_logger st)
                  (''failed: '' @ (if Type r \<noteq> ''config'' then ''expecting config request''
                                   else ''invalid config'')),
                Reply False (if Type r \<noteq> ''config'' then ''expecting config request''
                             else ''invalid config'')]
           \<and> filter is_tunnel (trace st') = filter is_tunnel (trace st)"
  using assms(4,5)
  by (auto simp add: handleWebsocket_handshook [OF assms(1-3)] config_exchange_eq Let_def
      handshake_events_def)

theorem config_first_witness:
  "(\<exists>st'. handleWebsocket ex_server
             (ex_env\<lparr>firstRequest := Some \<lparr>Type = ''ping'', Payload = []\<rparr>\<rparr>)
             ex_request_psk ex_state = Inr st'
        \<and> trace st' =
            [Upgrade, Debug (SessionLogger 1) ''handshaking with 10.0.0.1:5000...'',
             NewServerConn, Debug (SessionLogger 1) ''verifying configuration'',
             TimeAfter 10000000000,
             Debug (SessionLogger 1) ''failed: expecting config request'',
             Reply False ''expecting config request''])
   \<and> (\<exists>st'. handleWebsocket ex_server
             (ex_env\<lparr>firstRequest := Some \<lparr>Type = ''config'', Payload = ''junk''\<rparr>\<rparr>)
             ex_request_psk ex_state = Inr st'
        \<and> trace st' =
            [Upgrade, Debug (SessionLogger 1) ''handshaking with 10.0.0.1:5000...'',
             NewServerConn, Debug (SessionLogger 1) ''verifying configuration'',
             TimeAfter 10000000000,
             Debug (SessionLogger 1) ''failed: invalid config'',
             Reply False ''invalid config''])"
proof -
  let ?e1 = "ex_env\<lparr>firstRequest := Some \<lparr>Type = ''ping'', Payload = []\<rparr>\<rparr>"
  let ?e2 = "ex_env\<lparr>firstRequest := Some \<lparr>Type = ''config'', Payload = ''junk''\<rparr>\<rparr>"
  have u1: "upgradeErr ?e1 = None" and u2: "upgradeErr ?e2 = None"
    and s1: "handshake ?e1 = Inr ''sid''" and s2: "handshake ?e2 = Inr ''sid''"
    by (simp_all add: ex_env_def)
  have n: "users ex_server = [] \<or> sessions ex_state ''sid'' \<noteq> None"
    by (simp add: ex_server_def)
  have f1: "firstRequest ?e1 = Some \<lparr>Type = ''ping'', Payload = []\<rparr>"
    and f2: "firstRequest ?e2 = Some \<lparr>Type = ''config'', Payload = ''junk''\<rparr>"
    by simp_all
  have b1: "Type \<lparr>Type = ''ping'', Payload = []\<rparr> \<noteq> ''config''
            \<or> DecodeConfig ?e1 (Payload \<lparr>Type = ''ping'', Payload = []\<rparr>) = None"
    by simp
  have b2: "Type \<lparr>Type = ''config'', Payload = ''junk''\<rparr> \<noteq> ''config''
            \<or> DecodeConfig ?e2 (Payload \<lparr>Type = ''config'', Payload = ''junk''\<rparr>) = None"
    by (simp add: ex_env_def)
  show ?thesis
    using config_first [OF u1 s1 n f1 b1, of ex_request_psk]
      config_first [OF u2 s2 n f2 b2, of ex_request_psk]
    by (auto simp add: handshake_events_def session_logger_def EnvDuration_def Second_def
        ex_env_def ex_state_def ex_request_psk_def)
qed

text \<open>
  C5 (config timeout). The handshake has completed and the timer fires before a request
  arrives. The timer was set to the duration held by the environment variable
  CONFIG\_TIMEOUT, and to 10 seconds when the variable holds none. The handler logs the
  timeout, closes the connection and returns: these are its last events, it sends no
  reply and neither creates nor binds a tunnel.
\<close>

theorem config_timeout:
  assumes "upgradeErr e = None" and "handshake e = Inr sid"
    and "users s = [] \<or> sessions st sid \<noteq> None"
    and "firstRequest e = None"
  shows "\<exists>st'. handleWebsocket s e req st = Inr st'
           \<and> trace st' = trace st @ handshake_events req st @
               [Debug (session_logger st) ''verifying configuration'',
                TimeAfter (case envDurations e ''CONFIG_TIMEOUT'' of
                             None \<Rightarrow> 10 * Second
                           | Some d \<Rightarrow> d),
                Debug (session_logger st) ''timeout waiting for configuration'',
                Close]
           \<and> filter is_reply (trace st') = filter is_reply (trace st)
           \<and> filter is_tunnel (trace st') = filter is_tunnel (trace st)"
  using assms(4)
  by (simp add: handleWebsocket_handshook [OF assms(1-3)] config_exchange_eq Let_def
      handshake_events_def EnvDuration_def)

theorem config_timeout_witness:
  "(\<exists>st'. handleWebsocket ex_server (ex_env\<lparr>firstRequest := None\<rparr>) ex_request_psk ex_state
           = Inr st'
        \<and> trace st' =
            [Upgrade, Debug (SessionLogger 1) ''handshaking with 10.0.0.1:5000...'',
             NewServerConn, Debug (SessionLogger 1) ''verifying configuration'',
             TimeAfter 10000000000,
             Debug (SessionLogger 1) ''timeout waiting for configuration'',
             Close])
   \<and> (\<exists>st'. handleWebsocket ex_server
             (ex_env\<lparr>firstRequest := None, envDurations := [''CONFIG_TIMEOUT'' \<mapsto> 3000000000]\<rparr>)
             ex_request_psk ex_state = Inr st'
        \<and> trace st' =
            [Upgrade, Debug (SessionLogger 1) ''handshaking with 10.0.0.1:5000...'',
             NewServerConn, Debug (SessionLogger 1) ''verifying configuration'',
             TimeAfter 3000000000,
             Debug (SessionLogger 1) ''timeout waiting for configuration'',
             Close])"
proof -
  let ?e1 = "ex_env\<lparr>firstRequest := None\<rparr>"
  let ?e2 = "ex_env\<lparr>firstRequest := None, envDurations := [''CONFIG_TIMEOUT'' \<mapsto> 3000000000]\<rparr>"
  have u1: "upgradeErr ?e1 = None" and u2: "upgradeErr ?e2 = None"
    and s1: "handshake ?e1 = Inr ''sid''" and s2: "handshake ?e2 = Inr ''sid''"
    by (simp_all add: ex_env_def)
  have n: "users ex_server = [] \<or> sessions ex_state ''sid'' \<noteq> None"
    by (simp add: ex_server_def)
  have f1: "firstRequest ?e1 = None" and f2: "firstRequest ?e2 = None"
    by simp_all
  show ?thesis
    using config_timeout [OF u1 s1 n f1, of ex_request_psk]
      config_timeout [OF u2 s2 n f2, of ex_request_psk]
    by (auto simp add: handshake_events_def session_logger_def Second_def ex_env_def
        ex_state_def ex_request_psk_def)
qed

lemma serve_config_trace:
  "\<exists>evs. (\<forall>st. serve_config s e l usr c st = st\<lparr>trace := trace st @ evs\<rparr>)
     \<and> Close \<notin> set evs
     \<and> (BindSSH \<in> set evs \<longrightarrow>
          last evs = Debug l (case waitErr e of
                                None \<Rightarrow> ''closed connection''
                              | Some txt \<Rightarrow>
                                  if (\<exists>p. txt = p @ ''EOF'') then ''closed connection''
                                  else ''closed connection ('' @ txt @ '')''))"
proof -
  from serve_config_claim [where s = s and usr = usr and rs = "Remotes c" and l = l]
  obtain pre where d: "list_all is_debug pre"
    and v: "\<And>st. serve_config s e l usr c st =
            (case claim_validate s usr (Remotes c) of
               Some msg \<Rightarrow>
                 st\<lparr>trace := trace (check_version e l c st) @ pre @ [Reply False msg]\<rparr>
             | None \<Rightarrow>
                 log_closed l (waitErr e)
                   (bind_tunnel s c (emit (Reply True []) (check_version e l c st))))"
    by blast
  let ?ver = "if Version c \<noteq> BuildVersion e
         then [Info l (''client version ('' @ (if Version c = [] then ''<unknown>'' else Version c)
                         @ '') differs from server version ('' @ BuildVersion e @ '')'')]
         else []"
  have ver: "\<And>st. trace (check_version e l c st) = trace st @ ?ver"
    by (simp add: check_version_eq)
  show ?thesis
  proof (cases "claim_validate s usr (Remotes c)")
    case (Some msg)
    let ?evs = "?ver @ pre @ [Reply False msg]"
    have "\<forall>st. serve_config s e l usr c st = st\<lparr>trace := trace st @ ?evs\<rparr>"
      by (simp add: v Some ver)
    moreover have "Close \<notin> set ?evs" and "BindSSH \<notin> set ?evs"
      using debug_only(4,5) [OF d] by simp_all
    ultimately show ?thesis by blast
  next
    case None
    let ?closed = "Debug l (case waitErr e of
                                None \<Rightarrow> ''closed connection''
                              | Some txt \<Rightarrow>
                                  if (\<exists>p. txt = p @ ''EOF'') then ''closed connection''
                                  else ''closed connection ('' @ txt @ '')'')"
    let ?tun = "TunnelNew \<lparr>Inbound = cfgReverse (config s), Outbound = True,
                           Socks = Socks5 (config s), tunKeepAlive = KeepAlive (config s)\<rparr>
        # BindSSH
        # (if Reversed True (Remotes c) = [] then []
           else [BindRemotes (Reversed True (Remotes c))])"
    let ?evs = "?ver @ [Reply True []] @ ?tun @ [?closed]"
    have "\<forall>st. serve_config s e l usr c st = st\<lparr>trace := trace st @ ?evs\<rparr>"
      by (simp add: v None log_closed_eq bind_tunnel_eq emit_eq check_version_eq)
    moreover have "Close \<notin> set ?evs" by simp
    moreover have "last ?evs = ?closed" by simp
    ultimately show ?thesis by blast
  qed
qed

lemma config_exchange_trace:
  "\<exists>evs. (\<forall>st. config_exchange s e l usr st = st\<lparr>trace := trace st @ evs\<rparr>)
     \<and> (firstRequest e \<noteq> None \<longrightarrow> Close \<notin> set evs)
     \<and> (BindSSH \<in> set evs \<longrightarrow>
          last evs = Debug l (case waitErr e of
                                None \<Rightarrow> ''closed connection''
                              | Some txt \<Rightarrow>
                                  if (\<exists>p. txt = p @ ''EOF'') then ''closed connection''
                                  else ''closed connection ('' @ txt @ '')''))"
proof -
  let ?closed = "Debug l (case waitErr e of
                                None \<Rightarrow> ''closed connection''
                              | Some txt \<Rightarrow>
                                  if (\<exists>p. txt = p @ ''EOF'') then ''closed connection''
                                  else ''closed connection ('' @ txt @ '')'')"
  let ?hd = "[Debug l ''verifying configuration'',
              TimeAfter (EnvDuration e ''CONFIG_TIMEOUT'' (10 * Second))]"
  have simple: "\<exists>evs. (\<forall>st. config_exchange s e l usr st = st\<lparr>trace := trace st @ evs\<rparr>)
     \<and> (firstRequest e \<noteq> None \<longrightarrow> Close \<notin> set evs)
     \<and> (BindSSH \<in> set evs \<longrightarrow> last evs = ?closed)"
    if "\<forall>st. config_exchange s e l usr st = st\<lparr>trace := trace st @ ?hd @ tl\<rparr>"
      and "firstRequest e \<noteq> None \<longrightarrow> Close \<notin> set tl"
      and "BindSSH \<in> set tl \<longrightarrow> tl \<noteq> [] \<and> last tl = ?closed" for tl
  proof -
    have "firstRequest e \<noteq> None \<longrightarrow> Close \<notin> set (?hd @ tl)"
      using that(2) by simp
    moreover have "BindSSH \<in> set (?hd @ tl) \<longrightarrow> last (?hd @ tl) = ?closed"
      using that(3) by auto
    ultimately show ?thesis
      using that(1) by blast
  qed
  show ?thesis
  proof (cases "firstRequest e")
    case None
    show ?thesis
      by (rule simple [of "[Debug l ''timeout waiting for configuration'', Close]"])
        (simp_all add: config_exchange_eq Let_def None)
  next
    case (Some r)
    show ?thesis
    proof (cases "Type r \<noteq> ''config''")
      case True
      show ?thesis
        by (rule simple [of "[Debug l ''failed: expecting config request'',
                              Reply False ''expecting config request'']"])
          (simp_all add: config_exchange_eq Let_def Some True)
    next
      case False
      show ?thesis
      proof (cases "DecodeConfig e (Payload r)")
        case None
        show ?thesis
          by (rule simple [of "[Debug l ''failed: invalid config'',
                                Reply False ''invalid config'']"])
            (simp_all add: config_exchange_eq Let_def Some False None)
      next
        case (Some c)
        from serve_config_trace [of s e l usr c]
        obtain evs where a: "\<And>st. serve_config s e l usr c st = st\<lparr>trace := trace st @ evs\<rparr>"
          and b: "Close \<notin> set evs" and c: "BindSSH \<in> set evs \<longrightarrow> last evs = ?closed"
          by blast
        show ?thesis
          by (rule simple [of evs])
            (use \<open>firstRequest e = Some r\<close> False Some a b c in
              \<open>auto simp add: config_exchange_eq Let_def\<close>)
      qed
    qed
  qed
qed

lemma handleWebsocket_trace:
  assumes "handleWebsocket s e req st = Inr st'"
  shows "\<exists>evs. trace st' = trace st @ evs
           \<and> (firstRequest e \<noteq> None \<longrightarrow> Close \<notin> set evs)
           \<and> (BindSSH \<in> set evs \<longrightarrow>
                last evs = Debug (session_logger st)
                  (case waitErr e of
                     None \<Rightarrow> ''closed connection''
                   | Some txt \<Rightarrow>
                       if (\<exists>p. txt = p @ ''EOF'') then ''closed connection''
                       else ''closed connection ('' @ txt @ '')''))"
proof (cases "upgradeErr e")
  case (Some err)
  with assms have "trace st' = trace st @ [Upgrade,
      Debug (SessionLogger (sessCount st + 1)) (''failed to upgrade ('' @ err @ '')'')]"
    by (auto simp add: handleWebsocket_def Let_def emit_def Debugf_def)
  then show ?thesis by simp
next
  case None
  show ?thesis
  proof (cases "handshake e")
    case (Inl err)
    with assms None have "trace st' = trace st @ [Upgrade,
        Debug (SessionLogger (sessCount st + 1)) (''handshaking with '' @ RemoteAddr req @ ''...''),
        NewServerConn, Debug ServerLogger (''failed to handshake ('' @ err @ '')'')]"
      by (auto simp add: handleWebsocket_def Let_def emit_def Debugf_def)
    then show ?thesis by simp
  next
    case (Inr sid)
    have n: "users s = [] \<or> sessions st sid \<noteq> None"
    proof (rule ccontr)
      assume "\<not> (users s = [] \<or> sessions st sid \<noteq> None)"
      then have "handleWebsocket s e req st = Inl ''bug in ssh auth handler''"
        using None Inr by (simp add: handleWebsocket_def Let_def pull_user_def emit_def Debugf_def)
      with assms show False by simp
    qed
    from config_exchange_trace [of s e "session_logger st" "session_user s st sid"]
    obtain evs where a: "\<And>st0. config_exchange s e (session_logger st) (session_user s st sid) st0
                           = st0\<lparr>trace := trace st0 @ evs\<rparr>"
      and b: "firstRequest e \<noteq> None \<longrightarrow> Close \<notin> set evs"
      and c: "BindSSH \<in> set evs \<longrightarrow>
                last evs = Debug (session_logger st)
                  (case waitErr e of
                     None \<Rightarrow> ''closed connection''
                   | Some txt \<Rightarrow>
                       if (\<exists>p. txt = p @ ''EOF'') then ''closed connection''
                       else ''closed connection ('' @ txt @ '')'')"
      by blast
    from assms have t: "trace st' = trace st @ handshake_events req st @ evs"
      by (auto simp add: handleWebsocket_handshook [OF None Inr n] a)
    have "firstRequest e \<noteq> None \<longrightarrow> Close \<notin> set (handshake_events req st @ evs)"
      using b by (simp add: handshake_events_def)
    moreover have "BindSSH \<in> set (handshake_events req st @ evs) \<longrightarrow>
        last (handshake_events req st @ evs) = Debug (session_logger st)
                  (case waitErr e of
                     None \<Rightarrow> ''closed connection''
                   | Some txt \<Rightarrow>
                       if (\<exists>p. txt = p @ ''EOF'') then ''closed connection''
                       else ''closed connection ('' @ txt @ '')'')"
      using c by (auto simp add: handshake_events_def)
    ultimately show ?thesis
      using t by blast
  qed
qed

text \<open>
  C7 (session ticket). The server has at least one configured user and the handshake
  has completed with session identifier \<open>sid\<close>. If the ticket store holds no entry for
  \<open>sid\<close>, the handler panics. If it holds the user \<open>u\<close>, the handler goes on with
  \<open>u\<close> attached to the session and with the entry deleted, and the entry is still
  absent, every other entry untouched, when the handler returns.
\<close>

theorem session_ticket:
  assumes "users s \<noteq> []" and "upgradeErr e = None" and "handshake e = Inr sid"
  shows "(sessions st sid = None \<longrightarrow>
            handleWebsocket s e req st = Inl ''bug in ssh auth handler'')
         \<and> (\<forall>u. sessions st sid = Some u \<longrightarrow>
               (\<exists>st'. handleWebsocket s e req st = Inr st'
                  \<and> st' = config_exchange s e (session_logger st) (Some u)
                             (st\<lparr>sessCount := sessCount st + 1,
                                 trace := trace st @ handshake_events req st,
                                 sessions := (sessions st)(sid := None)\<rparr>)
                  \<and> sessions st' = (sessions st)(sid := None)))"
proof (intro conjI allI impI)
  assume "sessions st sid = None"
  with assms show "handleWebsocket s e req st = Inl ''bug in ssh auth handler''"
    by (simp add: handleWebsocket_def Let_def pull_user_def emit_def Debugf_def)
next
  fix u
  assume u: "sessions st sid = Some u"
  then have n: "users s = [] \<or> sessions st sid \<noteq> None" by simp
  from config_exchange_trace [of s e "session_logger st" "Some u"]
  obtain evs where a: "\<And>st0. config_exchange s e (session_logger st) (Some u) st0
                         = st0\<lparr>trace := trace st0 @ evs\<rparr>"
    by blast
  have su: "session_user s st sid = Some u"
    using assms(1) u by (simp add: session_user_def)
  have h: "handleWebsocket s e req st =
      Inr (config_exchange s e (session_logger st) (Some u)
             (st\<lparr>sessCount := sessCount st + 1,
                 trace := trace st @ handshake_events req st,
                 sessions := (sessions st)(sid := None)\<rparr>))"
    using handleWebsocket_handshook [OF assms(2,3) n, of req] assms(1) su by simp
  show "\<exists>st'. handleWebsocket s e req st = Inr st'
                  \<and> st' = config_exchange s e (session_logger st) (Some u)
                             (st\<lparr>sessCount := sessCount st + 1,
                                 trace := trace st @ handshake_events req st,
                                 sessions := (sessions st)(sid := None)\<rparr>)
                  \<and> sessions st' = (sessions st)(sid := None)"
    unfolding h by (simp add: a)
qed

theorem session_ticket_witness:
  "users ex_server_users \<noteq> [] \<and> upgradeErr ex_env = None \<and> handshake ex_env = Inr ''sid''
   \<and> sessions ex_state ''sid'' = None
   \<and> handleWebsocket ex_server_users ex_env ex_request_psk ex_state
       = Inl ''bug in ssh auth handler''
   \<and> sessions ex_state_ticket ''sid'' = Some ex_user
   \<and> (\<exists>st'. handleWebsocket ex_server_users ex_env ex_request_psk ex_state_ticket = Inr st'
          \<and> sessions st' ''sid'' = None)"
proof -
  have h1: "users ex_server_users \<noteq> []"
    by (simp add: ex_server_users_def)
  have h2: "upgradeErr ex_env = None" and h3: "handshake ex_env = Inr ''sid''"
    by (simp_all add: ex_env_def)
  have a: "sessions ex_state ''sid'' = None"
    by (simp add: ex_state_def)
  have b: "sessions ex_state_ticket ''sid'' = Some ex_user"
    by (simp add: ex_state_ticket_def)
  from session_ticket [OF h1 h2 h3, of ex_state ex_request_psk] a
  have p: "handleWebsocket ex_server_users ex_env ex_request_psk ex_state
             = Inl ''bug in ssh auth handler''"
    by blast
  from session_ticket [OF h1 h2 h3, of ex_state_ticket ex_request_psk] b
  have q: "\<exists>st'. handleWebsocket ex_server_users ex_env ex_request_psk ex_state_ticket = Inr st'
          \<and> sessions st' ''sid'' = None"
    by auto
  from h1 h2 h3 a b p q show ?thesis by blast
qed

text \<open>
  C8 (clean-close classification). The handler has returned after binding the tunnel.
  Then its last event is the closing debug line of the session's logger: exactly
  "closed connection" when the error joined from the two tasks is nil or its text ends in
  "EOF", and "closed connection (<text>)" for every other error.
\<close>

theorem clean_close_classification:
  assumes "handleWebsocket s e req st = Inr st'"
    and "BindSSH \<notin> set (trace st)" and "BindSSH \<in> set (trace st')"
  shows "last (trace st') =
           Debug (session_logger st)
             (case waitErr e of
                None \<Rightarrow> ''closed connection''
              | Some txt \<Rightarrow>
                  if (\<exists>p. txt = p @ ''EOF'') then ''closed connection''
                  else ''closed connection ('' @ txt @ '')'')"
proof -
  from handleWebsocket_trace [OF assms(1)]
  obtain evs where t: "trace st' = trace st @ evs"
    and c: "BindSSH \<in> set evs \<longrightarrow>
                last evs = Debug (session_logger st)
                  (case waitErr e of
                     None \<Rightarrow> ''closed connection''
                   | Some txt \<Rightarrow>
                       if (\<exists>p. txt = p @ ''EOF'') then ''closed connection''
                       else ''closed connection ('' @ txt @ '')'')"
    by blast
  from t assms(2,3) have m: "BindSSH \<in> set evs" by simp
  then have "evs \<noteq> []" by auto
  then have "last (trace st') = last evs"
    using t by simp
  with m c show ?thesis by simp
qed

theorem clean_close_classification_witness:
  "(\<exists>st'. handleWebsocket (ex_server\<lparr>config := ex_config\<lparr>cfgReverse := True\<rparr>\<rparr>) ex_env
             ex_request_psk ex_state = Inr st'
        \<and> BindSSH \<notin> set (trace ex_state) \<and> BindSSH \<in> set (trace st')
        \<and> last (trace st') = Debug (SessionLogger 1) ''closed connection'')
   \<and> (\<exists>st'. handleWebsocket (ex_server\<lparr>config := ex_config\<lparr>cfgReverse := True\<rparr>\<rparr>)
             (ex_env\<lparr>waitErr := Some ''connection reset''\<rparr>) ex_request_psk ex_state = Inr st'
        \<and> BindSSH \<notin> set (trace ex_state) \<and> BindSSH \<in> set (trace st')
        \<and> last (trace st') = Debug (SessionLogger 1) ''closed connection (connection reset)'')"
proof -
  let ?s = "ex_server\<lparr>config := ex_config\<lparr>cfgReverse := True\<rparr>\<rparr>"
  let ?e = "ex_env\<lparr>waitErr := Some ''connection reset''\<rparr>"
  let ?pre = "[Upgrade, Debug (SessionLogger 1) ''handshaking with 10.0.0.1:5000...'',
              NewServerConn, Debug (SessionLogger 1) ''verifying configuration'',
              TimeAfter 10000000000,
              Info (SessionLogger 1) ''client version (0.0.1) differs from server version (1.2.3)'',
              Reply True [],
              TunnelNew \<lparr>Inbound = True, Outbound = True, Socks = False, tunKeepAlive = 0\<rparr>,
              BindSSH, BindRemotes [ex_remote_reverse]]"
  have r1: "handleWebsocket ?s ex_env ex_request_psk ex_state =
      Inr \<lparr>w = new_response,
           trace = ?pre @ [Debug (SessionLogger 1) ''closed connection''],
           sessions = Map.empty, sessCount = 1\<rparr>"
    by (simp add: handleWebsocket_def Let_def config_exchange_def serve_config_def
        check_version_def bind_tunnel_def log_closed_def Reversed_def HasSuffix_def
        pull_user_def ex_server_def ex_env_def ex_state_def ex_request_psk_def ex_config_def
        ex_cfg_def ex_remote_def ex_remote_reverse_def emit_def Debugf_def Infof_def
        EnvDuration_def Second_def)
  have r2: "handleWebsocket ?s ?e ex_request_psk ex_state =
      Inr \<lparr>w = new_response,
           trace = ?pre @ [Debug (SessionLogger 1) ''closed connection (connection reset)''],
           sessions = Map.empty, sessCount = 1\<rparr>"
    by (simp add: handleWebsocket_def Let_def config_exchange_def serve_config_def
        check_version_def bind_tunnel_def log_closed_def Reversed_def HasSuffix_def
        pull_user_def ex_server_def ex_env_def ex_state_def ex_request_psk_def ex_config_def
        ex_cfg_def ex_remote_def ex_remote_reverse_def emit_def Debugf_def Infof_def
        EnvDuration_def Second_def)
  have n: "BindSSH \<notin> set (trace ex_state)"
    by (simp add: ex_state_def)
  have m1: "BindSSH \<in> set (trace \<lparr>w = new_response,
           trace = ?pre @ [Debug (SessionLogger 1) ''closed connection''],
           sessions = Map.empty, sessCount = 1\<rparr>)"
    and m2: "BindSSH \<in> set (trace \<lparr>w = new_response,
           trace = ?pre @ [Debug (SessionLogger 1) ''closed connection (connection reset)''],
           sessions = Map.empty, sessCount = 1\<rparr>)"
    by simp_all
  have x: "\<not> (\<exists>p. ''connection reset'' = p @ ''EOF'')"
    by (simp add: HasSuffix_iff [symmetric] HasSuffix_def)
  have y: "\<exists>p. ''unexpected EOF'' = p @ ''EOF''"
    by (simp add: HasSuffix_iff [symmetric] HasSuffix_def)
  have l1: "last (trace \<lparr>w = new_response,
           trace = ?pre @ [Debug (SessionLogger 1) ''closed connection''],
           sessions = Map.empty, sessCount = 1\<rparr>) = Debug (SessionLogger 1) ''closed connection''"
    using clean_close_classification [OF r1 n m1] y
    by (simp add: session_logger_def ex_state_def ex_env_def)
  have l2: "last (trace \<lparr>w = new_response,
           trace = ?pre @ [Debug (SessionLogger 1) ''closed connection (connection reset)''],
           sessions = Map.empty, sessCount = 1\<rparr>)
         = Debug (SessionLogger 1) ''closed connection (connection reset)''"
    using clean_close_classification [OF r2 n m2] x
    by (simp add: session_logger_def ex_state_def ex_env_def)
  from r1 n m1 l1 r2 m2 l2 show ?thesis
    by blast
qed

lemma handleWebsocket_decoded:
  assumes "upgradeErr e = None" and "handshake e = Inr sid"
    and "users s = [] \<or> sessions st sid \<noteq> None"
    and "firstRequest e = Some r" and "Type r = ''config''"
    and "DecodeConfig e (Payload r) = Some c"
  shows "handleWebsocket s e req st =
           Inr (serve_config s e (session_logger st) (session_user s st sid) c
                  (st\<lparr>sessCount := sessCount st + 1,
                      sessions := (if users s = [] then sessions st
                                   else (sessions st)(sid := None)),
                      trace := trace st @ handshake_events req st @
                        [Debug (session_logger st) ''verifying configuration'',
                         TimeAfter (EnvDuration e ''CONFIG_TIMEOUT'' (10 * Second))]\<rparr>))"
  using assms(4-6)
  by (simp add: handleWebsocket_handshook [OF assms(1-3)] config_exchange_eq Let_def)

text \<open>
  C2 (validation of the remotes). The handshake has completed and the first request is a
  "config" request that decodes to \<open>c\<close>. Then the handler does not panic and sends
  exactly one reply: the negative reply of the first check that fails, going through the
  remotes in their declared order and through the three checks of each in sequence, or,
  when no check fails (as for the empty list), the positive reply with empty payload.
  After a negative reply the handler returns: the reply is its last event and no tunnel
  is created or bound.
\<close>

theorem remote_validation:
  assumes "upgradeErr e = None" and "handshake e = Inr sid"
    and "users s = [] \<or> sessions st sid \<noteq> None"
    and "firstRequest e = Some r" and "Type r = ''config''"
    and "DecodeConfig e (Payload r) = Some c"
  shows "\<exists>st'. handleWebsocket s e req st = Inr st'
           \<and> filter is_reply (trace st') =
               filter is_reply (trace st) @
                 [case claim_validate s (session_user s st sid) (Remotes c) of
                    None \<Rightarrow> Reply True []
                  | Some msg \<Rightarrow> Reply False msg]
           \<and> (claim_validate s (session_user s st sid) (Remotes c) \<noteq> None \<longrightarrow>
                is_reply (last (trace st'))
                \<and> filter is_tunnel (trace st') = filter is_tunnel (trace st))"
proof -
  from serve_config_claim
    [where s = s and usr = "session_user s st sid" and rs = "Remotes c"
       and l = "session_logger st"]
  obtain pre where d: "list_all is_debug pre"
    and v: "\<And>st0. serve_config s e (session_logger st) (session_user s st sid) c st0 =
            (case claim_validate s (session_user s st sid) (Remotes c) of
               Some msg \<Rightarrow>
                 st0\<lparr>trace := trace (check_version e (session_logger st) c st0)
                          @ pre @ [Reply False msg]\<rparr>
             | None \<Rightarrow>
                 log_closed (session_logger st) (waitErr e)
                   (bind_tunnel s c (emit (Reply True [])
                      (check_version e (session_logger st) c st0))))"
    by blast
  note h = handleWebsocket_decoded [OF assms, of req]
  show ?thesis
  proof (cases "claim_validate s (session_user s st sid) (Remotes c)")
    case None
    then show ?thesis
      by (simp add: h v log_closed_eq bind_tunnel_eq emit_eq check_version_eq
          handshake_events_def)
  next
    case (Some msg)
    then show ?thesis
      using debug_only(1,3) [OF d]
      by (simp add: h v check_version_eq handshake_events_def)
  qed
qed

theorem remote_validation_witness:
  "upgradeErr ex_env = None \<and> handshake ex_env = Inr ''sid''
   \<and> (users ex_server_users = [] \<or> sessions ex_state_ticket ''sid'' \<noteq> None)
   \<and> firstRequest ex_env = Some \<lparr>Type = ''config'', Payload = ''cfg''\<rparr>
   \<and> DecodeConfig ex_env ''cfg'' = Some ex_cfg
   \<and> (\<exists>st'. handleWebsocket ex_server_users ex_env ex_request_psk ex_state_ticket = Inr st'
          \<and> filter is_reply (trace st') =
              [Reply False (''access to '' @ squote @ ''0.0.0.0:8080'' @ squote @ '' denied'')]
          \<and> filter is_tunnel (trace st') = [])"
proof -
  have h1: "upgradeErr ex_env = None" and h2: "handshake ex_env = Inr ''sid''"
    and h4: "firstRequest ex_env = Some \<lparr>Type = ''config'', Payload = ''cfg''\<rparr>"
    by (simp_all add: ex_env_def)
  have h3: "users ex_server_users = [] \<or> sessions ex_state_ticket ''sid'' \<noteq> None"
    by (simp add: ex_state_ticket_def)
  have h5: "Type \<lparr>Type = ''config'', Payload = ''cfg''\<rparr> = ''config''"
    by simp
  have h6: "DecodeConfig ex_env (Payload \<lparr>Type = ''config'', Payload = ''cfg''\<rparr>) = Some ex_cfg"
    by (simp add: ex_env_def)
  have u: "session_user ex_server_users ex_state_ticket ''sid'' = Some ex_user"
    by (simp add: session_user_def ex_server_users_def ex_state_ticket_def)
  have cv: "claim_validate ex_server_users (Some ex_user) (Remotes ex_cfg)
      = Some (''access to '' @ squote @ ''0.0.0.0:8080'' @ squote @ '' denied'')"
    by (simp add: claim_validate_def claim_check_def ex_cfg_def ex_remote_def
        ex_remote_reverse_def ex_user_def)
  from remote_validation [OF h1 h2 h3 h4 h5 h6, of ex_request_psk]
  have "\<exists>st'. handleWebsocket ex_server_users ex_env ex_request_psk ex_state_ticket = Inr st'
          \<and> filter is_reply (trace st') =
              [Reply False (''access to '' @ squote @ ''0.0.0.0:8080'' @ squote @ '' denied'')]
          \<and> filter is_tunnel (trace st') = []"
    unfolding u cv by (auto simp add: ex_state_ticket_def)
  with h1 h2 h3 h4 h6 show ?thesis
    by simp
qed

lemma serve_config_version:
  "\<exists>post. filter is_info post = []
     \<and> (\<forall>st. serve_config s e l usr c st =
               st\<lparr>trace := trace st @
                  (if Version c \<noteq> BuildVersion e
                   then [Info l (''client version (''
                                   @ (if Version c = [] then ''<unknown>'' else Version c)
                                   @ '') differs from server version ('' @ BuildVersion e @ '')'')]
                   else []) @ post\<rparr>)
     \<and> (\<forall>st d. serve_config s (e\<lparr>DecodeConfig := d\<rparr>) l usr (c\<lparr>Version := BuildVersion e\<rparr>) st =
               st\<lparr>trace := trace st @ post\<rparr>)"
proof -
  from serve_config_claim [where s = s and usr = usr and rs = "Remotes c" and l = l]
  obtain pre where d: "list_all is_debug pre"
    and v: "\<And>st c' e'. Remotes c' = Remotes c \<Longrightarrow>
          serve_config s e' l usr c' st =
            (case claim_validate s usr (Remotes c) of
               Some msg \<Rightarrow>
                 st\<lparr>trace := trace (check_version e' l c' st) @ pre @ [Reply False msg]\<rparr>
             | None \<Rightarrow>
                 log_closed l (waitErr e')
                   (bind_tunnel s c' (emit (Reply True []) (check_version e' l c' st))))"
    by blast
  show ?thesis
  proof (cases "claim_validate s usr (Remotes c)")
    case (Some msg)
    have "filter is_info (pre @ [Reply False msg]) = []"
      using debug_only(2) [OF d] by simp
    moreover have "\<forall>st. serve_config s e l usr c st =
               st\<lparr>trace := trace st @
                  (if Version c \<noteq> BuildVersion e
                   then [Info l (''client version (''
                                   @ (if Version c = [] then ''<unknown>'' else Version c)
                                   @ '') differs from server version ('' @ BuildVersion e @ '')'')]
                   else []) @ (pre @ [Reply False msg])\<rparr>"
      by (simp add: v Some check_version_eq)
    moreover have "\<forall>st d. serve_config s (e\<lparr>DecodeConfig := d\<rparr>) l usr
                             (c\<lparr>Version := BuildVersion e\<rparr>) st =
               st\<lparr>trace := trace st @ (pre @ [Reply False msg])\<rparr>"
      by (simp add: v Some check_version_eq)
    ultimately show ?thesis by blast
  next
    case None
    let ?post = "Reply True []
        # TunnelNew \<lparr>Inbound = cfgReverse (config s), Outbound = True,
                     Socks = Socks5 (config s), tunKeepAlive = KeepAlive (config s)\<rparr>
        # BindSSH
        # (if Reversed True (Remotes c) = [] then []
           else [BindRemotes (Reversed True (Remotes c))])
        @ [Debug l (case waitErr e of
                      None \<Rightarrow> ''closed connection''
                    | Some txt \<Rightarrow>
                        if (\<exists>p. txt = p @ ''EOF'') then ''closed connection''
                        else ''closed connection ('' @ txt @ '')'')]"
    have "filter is_info ?post = []" by simp
    moreover have "\<forall>st. serve_config s e l usr c st =
               st\<lparr>trace := trace st @
                  (if Version c \<noteq> BuildVersion e
                   then [Info l (''client version (''
                                   @ (if Version c = [] then ''<unknown>'' else Version c)
                                   @ '') differs from server version ('' @ BuildVersion e @ '')'')]
                   else []) @ ?post\<rparr>"
      by (simp add: v None check_version_eq log_closed_eq bind_tunnel_eq emit_eq)
    moreover have "\<forall>st d. serve_config s (e\<lparr>DecodeConfig := d\<rparr>) l usr
                             (c\<lparr>Version := BuildVersion e\<rparr>) st =
               st\<lparr>trace := trace st @ ?post\<rparr>"
      by (simp add: v None check_version_eq log_closed_eq bind_tunnel_eq emit_eq)
    ultimately show ?thesis by blast
  qed
qed

text \<open>
  C9 (the version check is advisory). The handshake has completed and the first request
  is a "config" request that decodes to \<open>c\<close>. When the version of \<open>c\<close> differs from
  the server's build version, the handler logs one info line, with an empty version
  written "<unknown>", and apart from that line does exactly what it does for the same
  config carrying the server's version: same result, same events before and after the
  line. That line is the only info line the handler adds, and with equal versions it adds
  none.
\<close>

theorem version_mismatch_advisory:
  assumes "upgradeErr e = None" and "handshake e = Inr sid"
    and "users s = [] \<or> sessions st sid \<noteq> None"
    and "firstRequest e = Some r" and "Type r = ''config''"
    and "DecodeConfig e (Payload r) = Some c"
  shows "\<exists>st' pre post.
           handleWebsocket s e req st = Inr st'
           \<and> trace st' = pre @
               (if Version c \<noteq> BuildVersion e
                then [Info (session_logger st)
                        (''client version ('' @ (if Version c = [] then ''<unknown>'' else Version c)
                           @ '') differs from server version ('' @ BuildVersion e @ '')'')]
                else []) @ post
           \<and> handleWebsocket s (e\<lparr>DecodeConfig := \<lambda>p. Some (c\<lparr>Version := BuildVersion e\<rparr>)\<rparr>)
                 req st = Inr (st'\<lparr>trace := pre @ post\<rparr>)
           \<and> filter is_info (trace st') = filter is_info (trace st) @
               (if Version c \<noteq> BuildVersion e
                then [Info (session_logger st)
                        (''client version ('' @ (if Version c = [] then ''<unknown>'' else Version c)
                           @ '') differs from server version ('' @ BuildVersion e @ '')'')]
                else [])"
proof -
  let ?e' = "e\<lparr>DecodeConfig := \<lambda>p. Some (c\<lparr>Version := BuildVersion e\<rparr>)\<rparr>"
  let ?ver = "if Version c \<noteq> BuildVersion e
                then [Info (session_logger st)
                        (''client version ('' @ (if Version c = [] then ''<unknown>'' else Version c)
                           @ '') differs from server version ('' @ BuildVersion e @ '')'')]
                else []"
  let ?pre = "trace st @ handshake_events req st @
                [Debug (session_logger st) ''verifying configuration'',
                 TimeAfter (EnvDuration e ''CONFIG_TIMEOUT'' (10 * Second))]"
  from serve_config_version [of s e "session_logger st" "session_user s st sid" c]
  obtain post where i: "filter is_info post = []"
    and a: "\<And>st0. serve_config s e (session_logger st) (session_user s st sid) c st0 =
               st0\<lparr>trace := trace st0 @ ?ver @ post\<rparr>"
    and b: "\<And>st0 d. serve_config s (e\<lparr>DecodeConfig := d\<rparr>) (session_logger st)
                       (session_user s st sid) (c\<lparr>Version := BuildVersion e\<rparr>) st0 =
               st0\<lparr>trace := trace st0 @ post\<rparr>"
    by blast
  have e1: "upgradeErr ?e' = None" and e2: "handshake ?e' = Inr sid"
    and e4: "firstRequest ?e' = Some r"
    and e6: "DecodeConfig ?e' (Payload r) = Some (c\<lparr>Version := BuildVersion e\<rparr>)"
    using assms by simp_all
  have d: "EnvDuration ?e' = EnvDuration e"
    by (intro ext) (simp add: EnvDuration_def)
  note h = handleWebsocket_decoded [OF assms, of req]
  note h' = handleWebsocket_decoded [OF e1 e2 assms(3) e4 assms(5) e6, of req]
  let ?st' = "st\<lparr>sessCount := sessCount st + 1,
                  sessions := (if users s = [] then sessions st
                               else (sessions st)(sid := None)),
                  trace := ?pre @ ?ver @ post\<rparr>"
  have 1: "handleWebsocket s e req st = Inr ?st'"
    by (simp add: h a)
  have 2: "trace ?st' = ?pre @ ?ver @ post"
    by simp
  have 3: "handleWebsocket s ?e' req st = Inr (?st'\<lparr>trace := ?pre @ post\<rparr>)"
    by (simp add: h' b d)
  have 4: "filter is_info (trace ?st') = filter is_info (trace st) @ ?ver"
    using i by (simp add: handshake_events_def)
  from 1 2 3 4 show ?thesis
    by blast
qed

theorem version_mismatch_advisory_witness:
  "upgradeErr ex_env = None \<and> handshake ex_env = Inr ''sid''
   \<and> (users ex_server = [] \<or> sessions ex_state ''sid'' \<noteq> None)
   \<and> firstRequest ex_env = Some \<lparr>Type = ''config'', Payload = ''cfg''\<rparr>
   \<and> DecodeConfig ex_env ''cfg'' = Some ex_cfg
   \<and> Version ex_cfg \<noteq> BuildVersion ex_env
   \<and> (\<exists>st'. handleWebsocket ex_server ex_env ex_request_psk ex_state = Inr st'
          \<and> filter is_info (trace st') =
              [Info (SessionLogger 1)
                 ''client version (0.0.1) differs from server version (1.2.3)''])"
proof -
  have h1: "upgradeErr ex_env = None" and h2: "handshake ex_env = Inr ''sid''"
    and h4: "firstRequest ex_env = Some \<lparr>Type = ''config'', Payload = ''cfg''\<rparr>"
    by (simp_all add: ex_env_def)
  have h3: "users ex_server = [] \<or> sessions ex_state ''sid'' \<noteq> None"
    by (simp add: ex_server_def)
  have h5: "Type \<lparr>Type = ''config'', Payload = ''cfg''\<rparr> = ''config''"
    by simp
  have h6: "DecodeConfig ex_env (Payload \<lparr>Type = ''config'', Payload = ''cfg''\<rparr>) = Some ex_cfg"
    by (simp add: ex_env_def)
  have v: "Version ex_cfg = ''0.0.1''" and b: "BuildVersion ex_env = ''1.2.3''"
    by (simp_all add: ex_cfg_def ex_env_def)
  from version_mismatch_advisory [OF h1 h2 h3 h4 h5 h6, of ex_request_psk]
  have "\<exists>st'. handleWebsocket ex_server ex_env ex_request_psk ex_state = Inr st'
          \<and> filter is_info (trace st') =
              [Info (SessionLogger 1)
                 ''client version (0.0.1) differs from server version (1.2.3)'']"
    unfolding v b by (auto simp add: ex_state_def session_logger_def)
  with h1 h2 h3 h4 h6 v b show ?thesis
    by simp
qed

text \<open>
  The connection is closed on the timeout path only: when a first request did arrive,
  the handler adds no \<open>Close\<close> to the trace, whatever happens next.
\<close>

lemma close_only_on_timeout:
  assumes "handleWebsocket s e req st = Inr st'" and "firstRequest e \<noteq> None"
    and "Close \<notin> set (trace st)"
  shows "Close \<notin> set (trace st')"
  using handleWebsocket_trace [OF assms(1)] assms(2,3) by auto

text \<open>
  C6 (faults and the connection). Two sessions on a server without users whose reverse
  flag is off. In the first the first request has type "ping", a protocol fault; in the
  second the config asks for a reverse remote, a policy fault. Each time the handler sends
  the negative reply and returns, and the trace holds no \<open>Close\<close>: the connection is
  left open. The third session runs into the timeout, and there the handler does close
  the connection.
\<close>

theorem fault_reply_leaves_connection_open:
  "(\<exists>st'. handleWebsocket ex_server
             (ex_env\<lparr>firstRequest := Some \<lparr>Type = ''ping'', Payload = []\<rparr>\<rparr>)
             ex_request_psk ex_state = Inr st'
        \<and> trace st' =
            [Upgrade, Debug (SessionLogger 1) ''handshaking with 10.0.0.1:5000...'',
             NewServerConn, Debug (SessionLogger 1) ''verifying configuration'',
             TimeAfter 10000000000,
             Debug (SessionLogger 1) ''failed: expecting config request'',
             Reply False ''expecting config request'']
        \<and> Close \<notin> set (trace st'))
   \<and> (\<exists>st'. handleWebsocket ex_server ex_env ex_request_psk ex_state = Inr st'
        \<and> trace st' =
            [Upgrade, Debug (SessionLogger 1) ''handshaking with 10.0.0.1:5000...'',
             NewServerConn, Debug (SessionLogger 1) ''verifying configuration'',
             TimeAfter 10000000000,
             Info (SessionLogger 1) ''client version (0.0.1) differs from server version (1.2.3)'',
             Debug (SessionLogger 1)
               ''denied reverse port forwarding request, please enable --reverse'',
             Debug (SessionLogger 1) ''failed: reverse port forwarding not enabled on server'',
             Reply False ''reverse port forwarding not enabled on server'']
        \<and> Close \<notin> set (trace st'))
   \<and> (\<exists>st'. handleWebsocket ex_server (ex_env\<lparr>firstRequest := None\<rparr>) ex_request_psk ex_state
           = Inr st'
        \<and> Reply False ''expecting config request'' \<notin> set (trace st')
        \<and> Close \<in> set (trace st'))"
  by (simp add: handleWebsocket_def Let_def config_exchange_def serve_config_def
      check_version_def failed_def Errorf_def
      pull_user_def ex_server_def ex_env_def ex_state_def ex_request_psk_def ex_config_def
      ex_cfg_def ex_remote_def ex_remote_reverse_def emit_def Debugf_def Infof_def
      EnvDuration_def Second_def)

end
